theory Spec2Isabelle
  imports Main
begin

section \<open>MoodPet backend: data model\<close>

text \<open>
  A shallow embedding of \<^verbatim>\<open>src/backend/server.py\<close>. Python integers are \<open>int\<close>,
  strings are \<open>string\<close>. The two sources of nondeterminism of the handlers are made
  parameters: \<^verbatim>\<open>uuid.uuid4()\<close> (a string handed in by the caller of the model, or a
  supply \<open>nat \<Rightarrow> string\<close> where a loop draws several) and \<^verbatim>\<open>datetime.now\<close>
  (a \<open>datetime\<close>, kept abstract as a number; the ISO round trip of
  \<^verbatim>\<open>prepare_for_mongo\<close>/\<^verbatim>\<open>parse_from_mongo\<close> is the identity on it).
  Record fields keep the source's names; a name shared by several models (or with a HOL
  constant) carries a suffix naming its model.
\<close>

type_synonym datetime = nat

datatype Emotion = HAPPY | SAD | ANGRY | ANXIOUS | CALM | EXCITED

datatype PetStage = EGG | BABY | ADULT | LEGENDARY

record Pet =
  id_p :: string
  name_p :: string
  stage :: PetStage
  happiness :: int
  health :: int
  coins :: int
  experience :: int
  last_fed :: "datetime option"
  last_played :: "datetime option"
  last_trained :: "datetime option"
  created_at :: datetime

record PetCreate =
  name_c :: string

record PetUpdate =
  name_u :: "string option"
  happiness_u :: "int option"
  health_u :: "int option"
  coins_u :: "int option"

record MoodEntry =
  id_m :: string
  emotion_m :: Emotion
  intensity_m :: int
  note_m :: "string option"
  timestamp :: datetime
  pet_id_m :: string

record MoodEntryCreate =
  emotion :: Emotion
  intensity :: int
  note_c :: "string option"
  pet_id :: string

record Achievement =
  id_a :: string
  name_a :: string
  description_a :: string
  icon_a :: string
  unlocked :: bool
  unlocked_at :: "datetime option"
  pet_id_a :: string

record ShopItem =
  id_s :: string
  name_s :: string
  description_s :: string
  price :: int
  category :: string
  icon_s :: string

text \<open>
  The constraint \<^verbatim>\<open>Field(default=5, ge=1, le=10)\<close> on the intensity of
  \<^verbatim>\<open>MoodEntryCreate\<close>: the payloads the handler can receive.
\<close>

definition intensity_ok :: "MoodEntryCreate \<Rightarrow> bool" where
  "intensity_ok mood_data \<longleftrightarrow> 1 \<le> intensity mood_data \<and> intensity mood_data \<le> 10"

text \<open>
  What a handler raises: \<^verbatim>\<open>HTTPException(status_code, detail)\<close>, and the
  \<^verbatim>\<open>TypeError\<close> of \<^verbatim>\<open>Pet(**None)\<close> should a re-read after a write find nothing.
\<close>

datatype error = HTTPException (status_code: nat) (detail: string) | TypeError

section \<open>The document store\<close>

text \<open>
  A collection is the list of its documents in insertion order. \<open>find_one\<close> returns the
  first document matching the query, \<open>update_one\<close> rewrites the first match and does
  nothing when there is none (no upsert), \<open>insert_one\<close> appends, and
  \<open>find_to_list\<close> is \<^verbatim>\<open>find(query).to_list(n)\<close>. Every pet document is written by
  \<open>create_pet\<close> from a full \<open>Pet\<close>, so the defaults of the handlers'
  \<^verbatim>\<open>pet.get(key, default)\<close> are never taken and a document is a \<open>Pet\<close> record.
\<close>

fun find_one :: "('a \<Rightarrow> bool) \<Rightarrow> 'a list \<Rightarrow> 'a option" where
  "find_one q [] = None"
| "find_one q (d # ds) = (if q d then Some d else find_one q ds)"

fun update_one :: "('a \<Rightarrow> bool) \<Rightarrow> ('a \<Rightarrow> 'a) \<Rightarrow> 'a list \<Rightarrow> 'a list" where
  "update_one q f [] = []"
| "update_one q f (d # ds) = (if q d then f d # ds else d # update_one q f ds)"

definition insert_one :: "'a \<Rightarrow> 'a list \<Rightarrow> 'a list" where
  "insert_one d ds = ds @ [d]"

definition find_to_list :: "('a \<Rightarrow> bool) \<Rightarrow> nat \<Rightarrow> 'a list \<Rightarrow> 'a list" where
  "find_to_list q n ds = take n (filter q ds)"

record db =
  pets :: "Pet list"
  mood_entries :: "MoodEntry list"
  shop_items :: "ShopItem list"
  achievements :: "Achievement list"

definition by_id :: "string \<Rightarrow> Pet \<Rightarrow> bool" where
  "by_id i p \<longleftrightarrow> id_p p = i"

definition not_found :: error where
  "not_found = HTTPException 404 ''Pet not found''"

section \<open>Pet routes\<close>

definition new_Pet :: "string \<Rightarrow> string \<Rightarrow> datetime \<Rightarrow> Pet" where
  "new_Pet uuid nm now =
     \<lparr>id_p = uuid, name_p = nm, stage = EGG, happiness = 50, health = 100, coins = 100,
      experience = 0, last_fed = None, last_played = None, last_trained = None,
      created_at = now\<rparr>"

definition create_pet :: "PetCreate \<Rightarrow> string \<Rightarrow> datetime \<Rightarrow> db \<Rightarrow> Pet \<times> db" where
  "create_pet pet_data uuid now s =
     (let pet_dict = new_Pet uuid (name_c pet_data) now
      in (pet_dict, s\<lparr>pets := insert_one pet_dict (pets s)\<rparr>))"

definition get_pet :: "string \<Rightarrow> db \<Rightarrow> error + Pet" where
  "get_pet i s =
     (case find_one (by_id i) (pets s) of
        None \<Rightarrow> Inl not_found
      | Some pet \<Rightarrow> Inr pet)"

definition get_all_pets :: "db \<Rightarrow> Pet list" where
  "get_all_pets s = find_to_list (\<lambda>_. True) 1000 (pets s)"

text \<open>
  \<^verbatim>\<open>update_data\<close> keeps the fields of the payload that are not \<^verbatim>\<open>None\<close>;
  \<open>set_update_data\<close> is the \<^verbatim>\<open>$set\<close> of exactly those fields.
\<close>

definition update_data_empty :: "PetUpdate \<Rightarrow> bool" where
  "update_data_empty u \<longleftrightarrow>
     name_u u = None \<and> happiness_u u = None \<and> health_u u = None \<and> coins_u u = None"

definition set_update_data :: "PetUpdate \<Rightarrow> Pet \<Rightarrow> Pet" where
  "set_update_data u d =
     d\<lparr>name_p := (case name_u u of None \<Rightarrow> name_p d | Some v \<Rightarrow> v),
       happiness := (case happiness_u u of None \<Rightarrow> happiness d | Some v \<Rightarrow> v),
       health := (case health_u u of None \<Rightarrow> health d | Some v \<Rightarrow> v),
       coins := (case coins_u u of None \<Rightarrow> coins d | Some v \<Rightarrow> v)\<rparr>"

definition update_pet :: "string \<Rightarrow> PetUpdate \<Rightarrow> db \<Rightarrow> (error + Pet) \<times> db" where
  "update_pet i pet_update s =
     (let s1 = (if \<not> update_data_empty pet_update
                then s\<lparr>pets := update_one (by_id i) (set_update_data pet_update) (pets s)\<rparr>
                else s)
      in case find_one (by_id i) (pets s1) of
           None \<Rightarrow> (Inl not_found, s1)
         | Some pet \<Rightarrow> (Inr pet, s1))"

section \<open>Pet actions\<close>

text \<open>
  Each action reads the pet, builds \<^verbatim>\<open>updates\<close> from the values read, writes them
  with \<^verbatim>\<open>$set\<close> and reads the pet again for the response
  \<^verbatim>\<open>{"message": ..., "pet": ...}\<close>, here a pair.
\<close>

definition reread :: "string \<Rightarrow> string \<Rightarrow> db \<Rightarrow> (error + string \<times> Pet) \<times> db" where
  "reread message i s =
     (case find_one (by_id i) (pets s) of
        None \<Rightarrow> (Inl TypeError, s)
      | Some updated_pet \<Rightarrow> (Inr (message, updated_pet), s))"

definition feed_pet :: "string \<Rightarrow> datetime \<Rightarrow> db \<Rightarrow> (error + string \<times> Pet) \<times> db" where
  "feed_pet i now s =
     (case find_one (by_id i) (pets s) of
        None \<Rightarrow> (Inl not_found, s)
      | Some pet \<Rightarrow>
          (let updates = (\<lambda>d. d\<lparr>happiness := min 100 (happiness pet + 15),
                               health := min 100 (health pet + 10),
                               coins := coins pet + 5,
                               experience := experience pet + 10,
                               last_fed := Some now\<rparr>)
           in reread ''Pet fed successfully!'' i
                (s\<lparr>pets := update_one (by_id i) updates (pets s)\<rparr>)))"

definition play_with_pet :: "string \<Rightarrow> datetime \<Rightarrow> db \<Rightarrow> (error + string \<times> Pet) \<times> db" where
  "play_with_pet i now s =
     (case find_one (by_id i) (pets s) of
        None \<Rightarrow> (Inl not_found, s)
      | Some pet \<Rightarrow>
          (let updates = (\<lambda>d. d\<lparr>happiness := min 100 (happiness pet + 20),
                               coins := coins pet + 8,
                               experience := experience pet + 15,
                               last_played := Some now\<rparr>)
           in reread ''Had fun playing!'' i
                (s\<lparr>pets := update_one (by_id i) updates (pets s)\<rparr>)))"

text \<open>
  The evolution check of \<open>train_pet\<close>: the priority chain on the updated experience and
  the stage read; \<open>None\<close> when \<^verbatim>\<open>updates\<close> gets no \<^verbatim>\<open>"stage"\<close> key.
\<close>

definition evolution :: "int \<Rightarrow> PetStage \<Rightarrow> PetStage option" where
  "evolution exp' current_stage =
     (if exp' \<ge> 300 \<and> current_stage = ADULT then Some LEGENDARY
      else if exp' \<ge> 150 \<and> current_stage = BABY then Some ADULT
      else if exp' \<ge> 50 \<and> current_stage = EGG then Some BABY
      else None)"

definition train_pet :: "string \<Rightarrow> datetime \<Rightarrow> db \<Rightarrow> (error + string \<times> Pet) \<times> db" where
  "train_pet i now s =
     (case find_one (by_id i) (pets s) of
        None \<Rightarrow> (Inl not_found, s)
      | Some pet \<Rightarrow>
          (let exp' = experience pet + 25;
               current_stage = stage pet;
               updates = (\<lambda>d. d\<lparr>happiness := min 100 (happiness pet + 10),
                               health := min 100 (health pet + 5),
                               coins := coins pet + 12,
                               experience := exp',
                               last_trained := Some now,
                               stage := (case evolution exp' current_stage of
                                           None \<Rightarrow> stage d | Some st \<Rightarrow> st)\<rparr>)
           in reread ''Training completed!'' i
                (s\<lparr>pets := update_one (by_id i) updates (pets s)\<rparr>)))"

section \<open>Mood routes\<close>

definition happiness_change :: "Emotion \<Rightarrow> int \<Rightarrow> int" where
  "happiness_change e n =
     (if e \<in> {HAPPY, EXCITED, CALM} then n
      else if e \<in> {SAD, ANGRY, ANXIOUS} then (- n) div 2
      else 0)"

definition new_MoodEntry :: "MoodEntryCreate \<Rightarrow> string \<Rightarrow> datetime \<Rightarrow> MoodEntry" where
  "new_MoodEntry mood_data uuid now =
     \<lparr>id_m = uuid, emotion_m = emotion mood_data, intensity_m = intensity mood_data,
      note_m = note_c mood_data, timestamp = now, pet_id_m = pet_id mood_data\<rparr>"

definition create_mood_entry ::
  "MoodEntryCreate \<Rightarrow> string \<Rightarrow> datetime \<Rightarrow> db \<Rightarrow> (error + MoodEntry) \<times> db" where
  "create_mood_entry mood_data uuid now s =
     (let mood_dict = new_MoodEntry mood_data uuid now;
          s1 = s\<lparr>mood_entries := insert_one mood_dict (mood_entries s)\<rparr>
      in case find_one (by_id (pet_id mood_data)) (pets s1) of
           None \<Rightarrow> (Inr mood_dict, s1)
         | Some pet \<Rightarrow>
             (let new_happiness =
                    max 0 (min 100 (happiness pet
                                     + happiness_change (emotion mood_data) (intensity mood_data)));
                  coins_earned = 10 + intensity mood_data
              in (Inr mood_dict,
                  s1\<lparr>pets := update_one (by_id (pet_id mood_data))
                               (\<lambda>d. d\<lparr>happiness := new_happiness,
                                      coins := coins d + coins_earned,
                                      experience := experience d + 5\<rparr>)
                               (pets s1)\<rparr>)))"

text \<open>
  \<^verbatim>\<open>find({"pet_id": pet_id}).sort("timestamp", -1).to_list(100)\<close>: newest first; the
  order the store gives to equal timestamps is not fixed by the source, and the model
  keeps them in reverse insertion order.
\<close>

definition get_mood_entries :: "string \<Rightarrow> db \<Rightarrow> MoodEntry list" where
  "get_mood_entries i s =
     take 100 (rev (sort_key timestamp (filter (\<lambda>m. pet_id_m m = i) (mood_entries s))))"

section \<open>Shop and achievements\<close>

text \<open>
  The icons of the default rows are emoji; a \<open>string\<close> holds their UTF-8 bytes.
\<close>

definition default_items :: "(string \<times> string \<times> int \<times> string \<times> string) list" where
  "default_items =
     [(''Premium Food'', ''Increases happiness by 25'', 50, ''food'',
         [CHR 0xF0, CHR 0x9F, CHR 0x8D, CHR 0x96]),
      (''Toy Ball'', ''Fun toy for playing'', 30, ''toy'',
         [CHR 0xF0, CHR 0x9F, CHR 0x8F, CHR 0x80]),
      (''Training Weights'', ''Boosts training effectiveness'', 75, ''training'',
         [CHR 0xF0, CHR 0x9F, CHR 0x8F, CHR 0x8B, CHR 0xEF, CHR 0xB8, CHR 0x8F]),
      (''Sparkle Background'', ''Beautiful starry background'', 100, ''background'',
         [CHR 0xE2, CHR 0x9C, CHR 0xA8]),
      (''Rainbow Collar'', ''Colorful pet accessory'', 60, ''accessory'',
         [CHR 0xF0, CHR 0x9F, CHR 0x8C, CHR 0x88])]"

definition new_ShopItem :: "string \<Rightarrow> string \<times> string \<times> int \<times> string \<times> string \<Rightarrow> ShopItem" where
  "new_ShopItem uuid item_data =
     (case item_data of (n, d, p, c, i) \<Rightarrow>
        \<lparr>id_s = uuid, name_s = n, description_s = d, price = p, category = c, icon_s = i\<rparr>)"

text \<open>
  The seeding loop: the \<open>k\<close>-th iteration draws the \<open>k\<close>-th value of the uuid supply and
  inserts one row.
\<close>

fun seed_shop ::
  "(nat \<Rightarrow> string) \<Rightarrow> nat \<Rightarrow> (string \<times> string \<times> int \<times> string \<times> string) list
     \<Rightarrow> ShopItem list \<Rightarrow> ShopItem list" where
  "seed_shop uuid4 k [] coll = coll"
| "seed_shop uuid4 k (item_data # rest) coll =
     seed_shop uuid4 (Suc k) rest (insert_one (new_ShopItem (uuid4 k) item_data) coll)"

definition get_shop_items :: "(nat \<Rightarrow> string) \<Rightarrow> db \<Rightarrow> ShopItem list \<times> db" where
  "get_shop_items uuid4 s =
     (let existing_items = find_to_list (\<lambda>_. True) 100 (shop_items s)
      in if existing_items = []
         then (let s1 = s\<lparr>shop_items := seed_shop uuid4 0 default_items (shop_items s)\<rparr>
               in (find_to_list (\<lambda>_. True) 100 (shop_items s1), s1))
         else (existing_items, s))"

definition default_achievements :: "(string \<times> string \<times> string) list" where
  "default_achievements =
     [(''First Steps'', ''Create your first pet'', [CHR 0xF0, CHR 0x9F, CHR 0x90, CHR 0xA3]),
      (''Mood Tracker'', ''Log 10 mood entries'', [CHR 0xF0, CHR 0x9F, CHR 0x93, CHR 0x8A]),
      (''Happy Pet'', ''Reach 100 happiness'', [CHR 0xF0, CHR 0x9F, CHR 0x98, CHR 0x8A]),
      (''Evolution Master'', ''Evolve to Adult stage'', [CHR 0xF0, CHR 0x9F, CHR 0x8C, CHR 0x9F]),
      (''Coin Collector'', ''Earn 500 coins'', [CHR 0xF0, CHR 0x9F, CHR 0x92, CHR 0xB0])]"

definition new_Achievement :: "string \<Rightarrow> string \<Rightarrow> string \<times> string \<times> string \<Rightarrow> Achievement" where
  "new_Achievement uuid i ach_data =
     (case ach_data of (n, d, ic) \<Rightarrow>
        \<lparr>id_a = uuid, name_a = n, description_a = d, icon_a = ic, unlocked = False,
         unlocked_at = None, pet_id_a = i\<rparr>)"

fun seed_achievements ::
  "(nat \<Rightarrow> string) \<Rightarrow> nat \<Rightarrow> string \<Rightarrow> (string \<times> string \<times> string) list
     \<Rightarrow> Achievement list \<Rightarrow> Achievement list" where
  "seed_achievements uuid4 k i [] coll = coll"
| "seed_achievements uuid4 k i (ach_data # rest) coll =
     seed_achievements uuid4 (Suc k) i rest
       (insert_one (new_Achievement (uuid4 k) i ach_data) coll)"

text \<open>
  \<open>get_achievements\<close> never looks at the pets collection; it has no raising branch, and
  its result is typed like the other routes' so that the outcomes can be compared.
\<close>

definition get_achievements ::
  "string \<Rightarrow> (nat \<Rightarrow> string) \<Rightarrow> db \<Rightarrow> (error + Achievement list) \<times> db" where
  "get_achievements i uuid4 s =
     (let found = find_to_list (\<lambda>a. pet_id_a a = i) 100 (achievements s)
      in if found = []
         then (let s1 = s\<lparr>achievements :=
                            seed_achievements uuid4 0 i default_achievements (achievements s)\<rparr>
               in (Inr (find_to_list (\<lambda>a. pet_id_a a = i) 100 (achievements s1)), s1))
         else (Inr found, s))"

section \<open>The interface as a whole\<close>

text \<open>
  One constructor per route of the router, with the values the handler draws from its
  environment; \<open>step\<close> is the effect of serving a request on the store.
\<close>

datatype request =
    POST_pets PetCreate string datetime
  | GET_pet string
  | GET_pets
  | PUT_pet string PetUpdate
  | POST_feed string datetime
  | POST_play string datetime
  | POST_train string datetime
  | POST_moods MoodEntryCreate string datetime
  | GET_moods string
  | GET_shop "nat \<Rightarrow> string"
  | GET_achievements string "nat \<Rightarrow> string"

fun step :: "request \<Rightarrow> db \<Rightarrow> db" where
  "step (POST_pets pet_data uuid now) s = snd (create_pet pet_data uuid now s)"
| "step (GET_pet i) s = s"
| "step GET_pets s = s"
| "step (PUT_pet i pet_update) s = snd (update_pet i pet_update s)"
| "step (POST_feed i now) s = snd (feed_pet i now s)"
| "step (POST_play i now) s = snd (play_with_pet i now s)"
| "step (POST_train i now) s = snd (train_pet i now s)"
| "step (POST_moods mood_data uuid now) s = snd (create_mood_entry mood_data uuid now s)"
| "step (GET_moods i) s = s"
| "step (GET_shop uuid4) s = snd (get_shop_items uuid4 s)"
| "step (GET_achievements i uuid4) s = snd (get_achievements i uuid4 s)"

text \<open>
  The three actions under one name, and a run of them: each action of the list is served
  in turn on the pet it names, whatever the previous one answered. \<open>train_times n\<close> is
  the store after \<open>n\<close> train calls on one pet, the \<open>k\<close>-th of them (from 0) at time
  \<open>clock k\<close>.
\<close>

datatype action = Feed | Play | Train

fun do_action :: "action \<Rightarrow> string \<Rightarrow> datetime \<Rightarrow> db \<Rightarrow> (error + string \<times> Pet) \<times> db" where
  "do_action Feed i now s = feed_pet i now s"
| "do_action Play i now s = play_with_pet i now s"
| "do_action Train i now s = train_pet i now s"

fun run_actions :: "(action \<times> string \<times> datetime) list \<Rightarrow> db \<Rightarrow> db" where
  "run_actions [] s = s"
| "run_actions ((a, i, now) # rest) s = run_actions rest (snd (do_action a i now s))"

fun train_times :: "nat \<Rightarrow> string \<Rightarrow> (nat \<Rightarrow> datetime) \<Rightarrow> db \<Rightarrow> db" where
  "train_times 0 i clock s = s"
| "train_times (Suc n) i clock s = snd (train_pet i (clock n) (train_times n i clock s))"

definition in_range :: "Pet \<Rightarrow> bool" where
  "in_range p \<longleftrightarrow> 0 \<le> happiness p \<and> happiness p \<le> 100 \<and> 0 \<le> health p \<and> health p \<le> 100"

definition empty_db :: db where
  "empty_db = \<lparr>pets = [], mood_entries = [], shop_items = [], achievements = []\<rparr>"

text \<open>
  Concrete stores for the examples: two supplies of distinct identifiers, the store
  after one pet has been created, that store after an update through \<open>update_pet\<close>,
  after 25 play actions (an egg with experience 375), a store whose pet is close to
  the upper bounds, and a store with two pets, the second one set below range through
  \<open>update_pet\<close>.
\<close>

definition sample_uuid4 :: "nat \<Rightarrow> string" where
  "sample_uuid4 k = ''row-'' @ replicate k (CHR ''i'')"

definition other_uuid4 :: "nat \<Rightarrow> string" where
  "other_uuid4 k = ''again-'' @ replicate k (CHR ''j'')"

definition rex_db :: db where
  "rex_db = snd (create_pet \<lparr>name_c = ''Rex''\<rparr> ''p1'' 0 empty_db)"

definition out_of_range_db :: db where
  "out_of_range_db =
     snd (update_pet ''p1''
            \<lparr>name_u = None, happiness_u = Some (- 50), health_u = Some 150, coins_u = None\<rparr>
            rex_db)"

definition late_egg_db :: db where
  "late_egg_db = run_actions (replicate 25 (Play, ''p1'', 1)) rex_db"

definition rich_db :: db where
  "rich_db =
     empty_db\<lparr>pets := [(new_Pet ''p1'' ''Rex'' 0)\<lparr>happiness := 95, health := 97,
                          coins := 1000000, experience := 5000\<rparr>]\<rparr>"

definition mixed_db :: db where
  "mixed_db =
     snd (update_pet ''p2''
            \<lparr>name_u = None, happiness_u = Some (- 50), health_u = None, coins_u = None\<rparr>
            (snd (create_pet \<lparr>name_c = ''Bo''\<rparr> ''p2'' 0 rex_db)))"

section \<open>Facts about the store and the handlers\<close>

lemma find_one_holds: "find_one q ds = Some d \<Longrightarrow> q d"
  by (induction ds) (auto split: if_splits)

lemma find_one_mem: "find_one q ds = Some d \<Longrightarrow> d \<in> set ds"
  by (induction ds) (auto split: if_splits)


lemma find_one_update_one:
  "find_one q ds = Some d \<Longrightarrow> q (f d) \<Longrightarrow> find_one q (update_one q f ds) = Some (f d)"
  by (induction ds) (auto split: if_splits)

lemma length_update_one: "length (update_one q f ds) = length ds"
  by (induction ds) auto

lemma nth_update_one:
  "k < length ds \<Longrightarrow>
     update_one q f ds ! k = ds ! k \<or>
     (find_one q ds = Some (ds ! k) \<and> update_one q f ds ! k = f (ds ! k))"
proof (induction ds arbitrary: k)
  case Nil
  then show ?case by simp
next
  case (Cons d ds)
  show ?case
  proof (cases "q d")
    case True
    then show ?thesis by (cases k) auto
  next
    case False
    then show ?thesis using Cons by (cases k) auto
  qed
qed

lemma find_one_insert_one:
  "find_one q (insert_one d ds) =
     (case find_one q ds of Some x \<Rightarrow> Some x | None \<Rightarrow> if q d then Some d else None)"
  by (induction ds) (auto simp: insert_one_def)


lemma reread_after_update:
  assumes "find_one (by_id i) (pets s) = Some pet" and "id_p (f pet) = id_p pet"
  shows "reread m i (s\<lparr>pets := update_one (by_id i) f (pets s)\<rparr>) =
           (Inr (m, f pet), s\<lparr>pets := update_one (by_id i) f (pets s)\<rparr>)"
proof -
  have "by_id i pet" using assms(1) by (rule find_one_holds)
  then have "by_id i (f pet)" using assms(2) by (simp add: by_id_def)
  then have "find_one (by_id i) (update_one (by_id i) f (pets s)) = Some (f pet)"
    using assms(1) by (simp add: find_one_update_one)
  then show ?thesis by (simp add: reread_def)
qed

lemma feed_pet_found:
  assumes "find_one (by_id i) (pets s) = Some pet"
  shows "fst (feed_pet i now s) =
           Inr (''Pet fed successfully!'',
                pet\<lparr>happiness := min 100 (happiness pet + 15),
                    health := min 100 (health pet + 10),
                    coins := coins pet + 5,
                    experience := experience pet + 10,
                    last_fed := Some now\<rparr>)"
    and "find_one (by_id i) (pets (snd (feed_pet i now s))) =
           Some (pet\<lparr>happiness := min 100 (happiness pet + 15),
                    health := min 100 (health pet + 10),
                    coins := coins pet + 5,
                    experience := experience pet + 10,
                    last_fed := Some now\<rparr>)"
    and "pets (snd (feed_pet i now s)) =
           update_one (by_id i)
             (\<lambda>d. d\<lparr>happiness := min 100 (happiness pet + 15),
                    health := min 100 (health pet + 10),
                    coins := coins pet + 5,
                    experience := experience pet + 10,
                    last_fed := Some now\<rparr>) (pets s)"
  using assms find_one_holds[OF assms]
  by (simp_all add: feed_pet_def reread_after_update find_one_update_one by_id_def)

lemma play_with_pet_found:
  assumes "find_one (by_id i) (pets s) = Some pet"
  shows "fst (play_with_pet i now s) =
           Inr (''Had fun playing!'',
                pet\<lparr>happiness := min 100 (happiness pet + 20),
                    coins := coins pet + 8,
                    experience := experience pet + 15,
                    last_played := Some now\<rparr>)"
    and "find_one (by_id i) (pets (snd (play_with_pet i now s))) =
           Some (pet\<lparr>happiness := min 100 (happiness pet + 20),
                    coins := coins pet + 8,
                    experience := experience pet + 15,
                    last_played := Some now\<rparr>)"
    and "pets (snd (play_with_pet i now s)) =
           update_one (by_id i)
             (\<lambda>d. d\<lparr>happiness := min 100 (happiness pet + 20),
                    coins := coins pet + 8,
                    experience := experience pet + 15,
                    last_played := Some now\<rparr>) (pets s)"
  using assms find_one_holds[OF assms]
  by (simp_all add: play_with_pet_def reread_after_update find_one_update_one by_id_def)

lemma train_pet_found:
  assumes "find_one (by_id i) (pets s) = Some pet"
  shows "fst (train_pet i now s) =
           Inr (''Training completed!'',
                pet\<lparr>happiness := min 100 (happiness pet + 10),
                    health := min 100 (health pet + 5),
                    coins := coins pet + 12,
                    experience := experience pet + 25,
                    last_trained := Some now,
                    stage := (case evolution (experience pet + 25) (stage pet) of
                                None \<Rightarrow> stage pet | Some st \<Rightarrow> st)\<rparr>)"
    and "find_one (by_id i) (pets (snd (train_pet i now s))) =
           Some (pet\<lparr>happiness := min 100 (happiness pet + 10),
                    health := min 100 (health pet + 5),
                    coins := coins pet + 12,
                    experience := experience pet + 25,
                    last_trained := Some now,
                    stage := (case evolution (experience pet + 25) (stage pet) of
                                None \<Rightarrow> stage pet | Some st \<Rightarrow> st)\<rparr>)"
    and "pets (snd (train_pet i now s)) =
           update_one (by_id i)
             (\<lambda>d. d\<lparr>happiness := min 100 (happiness pet + 10),
                    health := min 100 (health pet + 5),
                    coins := coins pet + 12,
                    experience := experience pet + 25,
                    last_trained := Some now,
                    stage := (case evolution (experience pet + 25) (stage pet) of
                                None \<Rightarrow> stage d | Some st \<Rightarrow> st)\<rparr>) (pets s)"
  using assms find_one_holds[OF assms]
  by (simp_all add: train_pet_def reread_after_update find_one_update_one by_id_def Let_def)

lemma action_absent:
  assumes "find_one (by_id i) (pets s) = None"
  shows "feed_pet i now s = (Inl not_found, s)"
    and "play_with_pet i now s = (Inl not_found, s)"
    and "train_pet i now s = (Inl not_found, s)"
  using assms by (simp_all add: feed_pet_def play_with_pet_def train_pet_def)


lemma create_pet_fresh:
  assumes "find_one (by_id uuid) (pets s) = None"
  shows "find_one (by_id uuid) (pets (snd (create_pet pet_data uuid now s))) =
           Some (new_Pet uuid (name_c pet_data) now)"
  using assms by (simp add: create_pet_def Let_def find_one_insert_one by_id_def new_Pet_def)

lemma create_mood_entry_found:
  assumes "find_one (by_id (pet_id md)) (pets s) = Some pet"
  shows "fst (create_mood_entry md uuid now s) = Inr (new_MoodEntry md uuid now)"
    and "find_one (by_id (pet_id md)) (pets (snd (create_mood_entry md uuid now s))) =
           Some (pet\<lparr>happiness := max 0 (min 100 (happiness pet
                                      + happiness_change (emotion md) (intensity md))),
                    coins := coins pet + (10 + intensity md),
                    experience := experience pet + 5\<rparr>)"
    and "pets (snd (create_mood_entry md uuid now s)) =
           update_one (by_id (pet_id md))
             (\<lambda>d. d\<lparr>happiness := max 0 (min 100 (happiness pet
                                      + happiness_change (emotion md) (intensity md))),
                    coins := coins d + (10 + intensity md),
                    experience := experience d + 5\<rparr>) (pets s)"
    and "mood_entries (snd (create_mood_entry md uuid now s)) =
           insert_one (new_MoodEntry md uuid now) (mood_entries s)"
  using assms find_one_holds[OF assms]
  by (simp_all add: create_mood_entry_def Let_def find_one_update_one by_id_def)

lemma stage_update_one:
  assumes "k < length ds" and "\<And>d. stage (f d) = stage d"
  shows "stage (update_one q f ds ! k) = stage (ds ! k)"
  using nth_update_one[OF assms(1), of q f] assms(2) by auto

lemma rex_db_eval: "rex_db = empty_db\<lparr>pets := [new_Pet ''p1'' ''Rex'' 0]\<rparr>"
  by (simp add: rex_db_def create_pet_def Let_def insert_one_def empty_db_def)

lemma out_of_range_db_eval:
  "out_of_range_db =
     empty_db\<lparr>pets := [(new_Pet ''p1'' ''Rex'' 0)\<lparr>happiness := - 50, health := 150\<rparr>]\<rparr>"
  by (simp add: out_of_range_db_def rex_db_eval update_pet_def update_data_empty_def
        set_update_data_def empty_db_def by_id_def new_Pet_def)

lemma late_egg_db_eval:
  "pets late_egg_db =
     [(new_Pet ''p1'' ''Rex'' 0)\<lparr>happiness := 100, coins := 300, experience := 375,
         last_played := Some 1\<rparr>]"
  unfolding late_egg_db_def rex_db_eval by code_simp

lemma mixed_db_eval:
  "pets mixed_db =
     [new_Pet ''p1'' ''Rex'' 0, (new_Pet ''p2'' ''Bo'' 0)\<lparr>happiness := - 50\<rparr>]"
  by (simp add: mixed_db_def rex_db_eval create_pet_def update_pet_def Let_def insert_one_def
        update_data_empty_def set_update_data_def empty_db_def by_id_def new_Pet_def)

section \<open>Mood influence\<close>

text \<open>
  Claim C1, as amended. The source writes \<^verbatim>\<open>-mood_data.intensity // 2\<close>: the unary
  minus binds first, so for every sad, angry or anxious mood of intensity \<open>n\<close> in
  \<open>[1, 10]\<close> the delta is the floor division of the negated intensity, \<open>(- n) div 2\<close>,
  that is \<open>- ((n + 1) div 2)\<close>: intensity 5 gives \<open>-3\<close>, 7 gives \<open>-4\<close>, 10 gives \<open>-5\<close>.
  It differs from \<open>- (n div 2)\<close> by \<open>n mod 2\<close>, so the two agree exactly at even
  intensities. The stored happiness of an existing pet becomes the old value plus this
  delta, clamped to \<open>[0, 100]\<close>.
\<close>

theorem negative_mood_delta:
  assumes "intensity_ok md"
    and "emotion md \<in> {SAD, ANGRY, ANXIOUS}"
    and "find_one (by_id (pet_id md)) (pets s) = Some pet"
  shows "happiness_change (emotion md) (intensity md) = (- intensity md) div 2
       \<and> happiness_change (emotion md) (intensity md) = - ((intensity md + 1) div 2)
       \<and> happiness_change (emotion md) (intensity md) =
            - (intensity md div 2) - intensity md mod 2
       \<and> map_option happiness
            (find_one (by_id (pet_id md)) (pets (snd (create_mood_entry md uuid now s)))) =
          Some (max 0 (min 100 (happiness pet + (- intensity md) div 2)))"
proof -
  have hc: "happiness_change (emotion md) (intensity md) = (- intensity md) div 2"
    using assms(2) by (auto simp: happiness_change_def)
  have a: "(- intensity md) div 2 = - ((intensity md + 1) div 2)" by presburger
  have b: "(- intensity md) div 2 = - (intensity md div 2) - intensity md mod 2"
    by presburger
  show ?thesis
    using hc a b create_mood_entry_found(2)[OF assms(3), of uuid now] by simp
qed

text \<open>
  The theorem at a sad mood of intensity 5 logged for a fresh pet (happiness 50): the
  delta is \<open>-3\<close> and the stored happiness 47.
\<close>

theorem negative_mood_delta_witness:
  "intensity_ok \<lparr>emotion = SAD, intensity = 5, note_c = None, pet_id = ''p1''\<rparr>
   \<and> find_one (by_id ''p1'') (pets rex_db) = Some (new_Pet ''p1'' ''Rex'' 0)
   \<and> happiness_change SAD 5 = - 3
   \<and> map_option happiness
        (find_one (by_id ''p1'')
           (pets (snd (create_mood_entry
                         \<lparr>emotion = SAD, intensity = 5, note_c = None, pet_id = ''p1''\<rparr>
                         ''m1'' 1 rex_db)))) = Some 47"
proof -
  have v: "intensity_ok \<lparr>emotion = SAD, intensity = 5, note_c = None, pet_id = ''p1''\<rparr>"
    by (simp add: intensity_ok_def)
  have f: "find_one (by_id (pet_id \<lparr>emotion = SAD, intensity = 5, note_c = None,
                                    pet_id = ''p1''\<rparr>)) (pets rex_db)
             = Some (new_Pet ''p1'' ''Rex'' 0)"
    by (simp add: rex_db_eval by_id_def new_Pet_def)
  show ?thesis
    using v f negative_mood_delta[OF v _ f, of "''m1''" 1] by (simp add: new_Pet_def)
qed

text \<open>
  The claim as the specification words it, \<open>- (intensity div 2)\<close>, fails at every odd
  intensity: 5 gives \<open>-3\<close>, not \<open>-2\<close>, and 7 gives \<open>-4\<close>, not \<open>-3\<close>; a pet of happiness
  50 is left at 47 by a sad mood of intensity 5.
\<close>

theorem negative_mood_delta_counterexample:
  "happiness_change SAD 5 = - 3 \<and> happiness_change SAD 5 \<noteq> - (5 div 2)
   \<and> happiness_change ANGRY 7 = - 4 \<and> happiness_change ANGRY 7 \<noteq> - (7 div 2)
   \<and> map happiness
        (pets (snd (create_mood_entry
                      \<lparr>emotion = SAD, intensity = 5, note_c = None, pet_id = ''p1''\<rparr>
                      ''m1'' 1 rex_db))) = [47]"
  by (simp add: happiness_change_def rex_db_def create_pet_def empty_db_def insert_one_def
        by_id_def new_Pet_def create_mood_entry_def Let_def)

section \<open>Range of happiness and health under the actions\<close>

lemma action_response:
  assumes "fst (do_action a i now s) = Inr (msg, p')"
  shows "\<exists>pet. find_one (by_id i) (pets s) = Some pet
           \<and> find_one (by_id i) (pets (snd (do_action a i now s))) = Some p'
           \<and> happiness p' \<le> 100 \<and> (a \<noteq> Play \<longrightarrow> health p' \<le> 100)
           \<and> (a = Play \<longrightarrow> health p' = health pet)"
proof (cases "find_one (by_id i) (pets s)")
  case None
  then show ?thesis using assms by (cases a) (simp_all add: action_absent)
next
  case (Some pet)
  show ?thesis
    using assms feed_pet_found(1,2)[OF Some, of now] play_with_pet_found(1,2)[OF Some, of now]
      train_pet_found(1,2)[OF Some, of now] Some
    by (cases a) auto
qed

lemma find_one_update_one_other:
  assumes "\<And>x. q (f x) = q x" and "find_one q ds = Some d"
  shows "find_one q (update_one q2 f ds) = Some d
       \<or> (find_one q2 ds = Some d \<and> find_one q (update_one q2 f ds) = Some (f d))"
  using assms by (induction ds) (auto split: if_splits)

lemma in_range_nth_update_one:
  assumes "k < length ds" and "in_range (ds ! k)"
    and "\<And>d. find_one q ds = Some d \<Longrightarrow> in_range d \<Longrightarrow> in_range (f d)"
  shows "in_range (update_one q f ds ! k)"
  using nth_update_one[OF assms(1), of q f] assms(2,3) by auto

lemma action_nth_in_range:
  assumes "k < length (pets s)" and "in_range (pets s ! k)"
  shows "length (pets (snd (do_action a i now s))) = length (pets s)
       \<and> in_range (pets (snd (do_action a i now s)) ! k)"
proof (cases "find_one (by_id i) (pets s)")
  case None
  then show ?thesis using assms by (cases a) (simp_all add: action_absent)
next
  case (Some pet)
  show ?thesis
  proof (cases a)
    case Feed
    show ?thesis unfolding Feed do_action.simps feed_pet_found(3)[OF Some]
      using Some by (auto simp: length_update_one in_range_def
          intro!: in_range_nth_update_one[OF assms, unfolded in_range_def])
  next
    case Play
    show ?thesis unfolding Play do_action.simps play_with_pet_found(3)[OF Some]
      using Some by (auto simp: length_update_one in_range_def
          intro!: in_range_nth_update_one[OF assms, unfolded in_range_def])
  next
    case Train
    show ?thesis unfolding Train do_action.simps train_pet_found(3)[OF Some]
      using Some by (auto simp: length_update_one in_range_def
          intro!: in_range_nth_update_one[OF assms, unfolded in_range_def])
  qed
qed

lemma run_actions_nth_in_range:
  "k < length (pets s) \<Longrightarrow> in_range (pets s ! k) \<Longrightarrow>
     length (pets (run_actions acts s)) = length (pets s)
     \<and> in_range (pets (run_actions acts s) ! k)"
proof (induction acts s rule: run_actions.induct)
  case (1 s)
  then show ?case by simp
next
  case (2 a i now rest s)
  have st: "length (pets (snd (do_action a i now s))) = length (pets s)
          \<and> in_range (pets (snd (do_action a i now s)) ! k)"
    using action_nth_in_range[OF "2.prems"] by simp
  then show ?case using "2.IH" "2.prems" by simp
qed

lemma by_id_update_in_range:
  assumes "find_one (by_id j) ds = Some pet" and "in_range pet"
    and "\<And>x. id_p (f x) = id_p x"
    and "\<And>d. find_one (by_id i) ds = Some d \<Longrightarrow> in_range d \<Longrightarrow> in_range (f d)"
  shows "\<exists>p'. find_one (by_id j) (update_one (by_id i) f ds) = Some p' \<and> in_range p'"
proof -
  have "by_id j (f x) = by_id j x" for x by (simp add: by_id_def assms(3))
  from find_one_update_one_other[OF this assms(1), of "by_id i"]
  show ?thesis using assms(2,4) by auto
qed

lemma action_by_id_in_range:
  assumes "find_one (by_id j) (pets s) = Some pet" and "in_range pet"
  shows "\<exists>p'. find_one (by_id j) (pets (snd (do_action a i now s))) = Some p' \<and> in_range p'"
proof (cases "find_one (by_id i) (pets s)")
  case None
  then show ?thesis using assms by (cases a) (simp_all add: action_absent)
next
  case (Some acted)
  show ?thesis
  proof (cases a)
    case Feed
    show ?thesis unfolding Feed do_action.simps feed_pet_found(3)[OF Some]
      by (rule by_id_update_in_range[OF assms]) (simp_all add: Some in_range_def)
  next
    case Play
    show ?thesis unfolding Play do_action.simps play_with_pet_found(3)[OF Some]
      by (rule by_id_update_in_range[OF assms]) (simp_all add: Some in_range_def)
  next
    case Train
    show ?thesis unfolding Train do_action.simps train_pet_found(3)[OF Some]
      by (rule by_id_update_in_range[OF assms]) (simp_all add: Some in_range_def)
  qed
qed

lemma run_actions_by_id_in_range:
  "find_one (by_id j) (pets s) = Some pet \<Longrightarrow> in_range pet \<Longrightarrow>
     \<exists>p'. find_one (by_id j) (pets (run_actions acts s)) = Some p' \<and> in_range p'"
proof (induction acts s arbitrary: pet rule: run_actions.induct)
  case (1 s)
  then show ?case by simp
next
  case (2 a i now rest s)
  obtain p1 where "find_one (by_id j) (pets (snd (do_action a i now s))) = Some p1"
    and "in_range p1"
    using action_by_id_in_range[OF "2.prems"] by blast
  then show ?case using "2.IH" by simp
qed

lemma action_response_in_range:
  assumes "find_one (by_id i) (pets s) = Some pet" and "in_range pet"
    and "fst (do_action a i now s) = Inr (msg, p')"
  shows "in_range p'"
  using assms feed_pet_found(1)[OF assms(1), of now] play_with_pet_found(1)[OF assms(1), of now]
    train_pet_found(1)[OF assms(1), of now]
  by (cases a) (auto simp: in_range_def)

text \<open>
  Claim C2, as amended. The actions apply \<^verbatim>\<open>min(100, ...)\<close> and no lower bound, and
  \<open>play_with_pet\<close> does not write health. So, whatever the starting values, the pet
  returned by a successful action has happiness at most 100, and health at most 100
  after feed or train. A pet whose stored happiness and health are within \<open>[0, 100]\<close>
  is returned within range by an action on it, and is still stored within range after
  any run of feed, play and train actions, on it or on other pets, whatever the other
  pets of the store hold: this is stated for the pet an identifier addresses and for
  the pet at any position of the collection.
\<close>

theorem actions_keep_range:
  "(fst (do_action a i now s) = Inr (msg, p') \<longrightarrow>
      happiness p' \<le> 100 \<and> (a \<noteq> Play \<longrightarrow> health p' \<le> 100))
   \<and> (find_one (by_id i) (pets s) = Some pet \<and> in_range pet
        \<and> fst (do_action a i now s) = Inr (msg, p') \<longrightarrow> in_range p')
   \<and> (find_one (by_id i) (pets s) = Some pet \<and> in_range pet \<longrightarrow>
        (\<exists>q. find_one (by_id i) (pets (run_actions acts s)) = Some q \<and> in_range q))
   \<and> (k < length (pets s) \<and> in_range (pets s ! k) \<longrightarrow>
        length (pets (run_actions acts s)) = length (pets s)
        \<and> in_range (pets (run_actions acts s) ! k))"
proof (intro conjI impI)
  assume "fst (do_action a i now s) = Inr (msg, p')"
  then show "happiness p' \<le> 100" using action_response by blast
next
  assume "fst (do_action a i now s) = Inr (msg, p')" and "a \<noteq> Play"
  then show "health p' \<le> 100" using action_response by blast
next
  assume "find_one (by_id i) (pets s) = Some pet \<and> in_range pet
            \<and> fst (do_action a i now s) = Inr (msg, p')"
  then show "in_range p'" using action_response_in_range by blast
next
  assume "find_one (by_id i) (pets s) = Some pet \<and> in_range pet"
  then show "\<exists>q. find_one (by_id i) (pets (run_actions acts s)) = Some q \<and> in_range q"
    using run_actions_by_id_in_range by blast
next
  assume "k < length (pets s) \<and> in_range (pets s ! k)"
  then show "length (pets (run_actions acts s)) = length (pets s)"
    using run_actions_nth_in_range by blast
next
  assume "k < length (pets s) \<and> in_range (pets s ! k)"
  then show "in_range (pets (run_actions acts s) ! k)"
    using run_actions_nth_in_range by blast
qed

text \<open>
  The theorem in a store whose second pet is below range: a train action on the first
  pet, and a run of six actions spread over the two pets.
\<close>

theorem actions_keep_range_witness:
  "find_one (by_id ''p1'') (pets mixed_db) = Some (new_Pet ''p1'' ''Rex'' 0)
   \<and> in_range (new_Pet ''p1'' ''Rex'' 0)
   \<and> \<not> list_all in_range (pets mixed_db)
   \<and> fst (do_action Train ''p1'' 7 mixed_db) =
       Inr (''Training completed!'',
            (new_Pet ''p1'' ''Rex'' 0)\<lparr>happiness := 60, health := 100, coins := 112,
               experience := 25, last_trained := Some 7\<rparr>)
   \<and> in_range ((new_Pet ''p1'' ''Rex'' 0)\<lparr>happiness := 60, health := 100, coins := 112,
                  experience := 25, last_trained := Some 7\<rparr>)
   \<and> (0::nat) < length (pets mixed_db) \<and> in_range (pets mixed_db ! 0)
   \<and> in_range
        (pets (run_actions [(Feed, ''p1'', 1), (Play, ''p2'', 2), (Train, ''p1'', 3),
                            (Play, ''p1'', 4), (Feed, ''p2'', 5), (Play, ''p1'', 6)]
                 mixed_db) ! 0)
   \<and> (\<exists>q. find_one (by_id ''p1'')
              (pets (run_actions [(Feed, ''p1'', 1), (Play, ''p2'', 2), (Train, ''p1'', 3),
                                  (Play, ''p1'', 4), (Feed, ''p2'', 5), (Play, ''p1'', 6)]
                       mixed_db)) = Some q
          \<and> in_range q)"
proof -
  have f: "find_one (by_id ''p1'') (pets mixed_db) = Some (new_Pet ''p1'' ''Rex'' 0)"
    by (simp add: mixed_db_eval by_id_def new_Pet_def)
  have i: "in_range (new_Pet ''p1'' ''Rex'' 0)"
    by (simp add: in_range_def new_Pet_def)
  have n: "\<not> list_all in_range (pets mixed_db)"
    by (simp add: mixed_db_eval in_range_def new_Pet_def)
  have r: "fst (do_action Train ''p1'' 7 mixed_db) =
     Inr (''Training completed!'',
          (new_Pet ''p1'' ''Rex'' 0)\<lparr>happiness := 60, health := 100, coins := 112,
             experience := 25, last_trained := Some 7\<rparr>)"
    using train_pet_found(1)[OF f, of 7] by (simp add: new_Pet_def evolution_def)
  have k: "(0::nat) < length (pets mixed_db) \<and> in_range (pets mixed_db ! 0)"
    using i by (simp add: mixed_db_eval)
  note t = actions_keep_range[of Train "''p1''" 7 mixed_db "''Training completed!''"
        "(new_Pet ''p1'' ''Rex'' 0)\<lparr>happiness := 60, health := 100, coins := 112,
             experience := 25, last_trained := Some 7\<rparr>"
        "new_Pet ''p1'' ''Rex'' 0"
        "[(Feed, ''p1'', 1), (Play, ''p2'', 2), (Train, ''p1'', 3),
          (Play, ''p1'', 4), (Feed, ''p2'', 5), (Play, ''p1'', 6)]" 0]
  have c2: "in_range ((new_Pet ''p1'' ''Rex'' 0)\<lparr>happiness := 60, health := 100,
              coins := 112, experience := 25, last_trained := Some 7\<rparr>)"
    using t f i r by blast
  have c3: "\<exists>q. find_one (by_id ''p1'')
              (pets (run_actions [(Feed, ''p1'', 1), (Play, ''p2'', 2), (Train, ''p1'', 3),
                                  (Play, ''p1'', 4), (Feed, ''p2'', 5), (Play, ''p1'', 6)]
                       mixed_db)) = Some q
          \<and> in_range q"
    using t f i by blast
  have c4: "in_range
        (pets (run_actions [(Feed, ''p1'', 1), (Play, ''p2'', 2), (Train, ''p1'', 3),
                            (Play, ''p1'', 4), (Feed, ''p2'', 5), (Play, ''p1'', 6)]
                 mixed_db) ! 0)"
    using t k by blast
  show ?thesis using f i n r k c2 c3 c4 by blast
qed

text \<open>
  The claim for every starting state fails: a pet whose happiness was set to \<open>-50\<close> and
  health to 150 through \<open>update_pet\<close> has happiness \<open>-35\<close> after a feed, and still
  health 150 after a play.
\<close>

theorem actions_keep_range_counterexample:
  "get_pet ''p1'' out_of_range_db =
     Inr ((new_Pet ''p1'' ''Rex'' 0)\<lparr>happiness := - 50, health := 150\<rparr>)
   \<and> map happiness (pets (snd (feed_pet ''p1'' 1 out_of_range_db))) = [- 35]
   \<and> map health (pets (snd (play_with_pet ''p1'' 1 out_of_range_db))) = [150]
   \<and> \<not> list_all in_range (pets (snd (feed_pet ''p1'' 1 out_of_range_db)))
   \<and> \<not> list_all in_range (pets (snd (play_with_pet ''p1'' 1 out_of_range_db)))
   \<and> \<not> list_all in_range (pets (snd (train_pet ''p1'' 1 out_of_range_db)))"
  by (simp add: out_of_range_db_eval get_pet_def feed_pet_def play_with_pet_def train_pet_def
        reread_def Let_def empty_db_def by_id_def new_Pet_def in_range_def evolution_def)

section \<open>Stage transitions\<close>

lemma stage_step_other:
  assumes "k < length (pets s)"
    and "\<And>i now. r \<noteq> POST_train i now"
  shows "stage (pets (step r s) ! k) = stage (pets s ! k)"
proof (cases r)
  case (POST_pets pet_data uuid now)
  then show ?thesis using assms(1)
    by (simp add: create_pet_def Let_def insert_one_def nth_append)
next
  case (PUT_pet i u)
  then show ?thesis using assms(1)
    by (simp add: update_pet_def Let_def stage_update_one set_update_data_def
          split: option.splits)
next
  case (POST_feed i now)
  show ?thesis
  proof (cases "find_one (by_id i) (pets s)")
    case None
    then show ?thesis using POST_feed by (simp add: action_absent)
  next
    case (Some pet)
    then show ?thesis using POST_feed assms(1)
      by (simp add: feed_pet_found(3) stage_update_one)
  qed
next
  case (POST_play i now)
  show ?thesis
  proof (cases "find_one (by_id i) (pets s)")
    case None
    then show ?thesis using POST_play by (simp add: action_absent)
  next
    case (Some pet)
    then show ?thesis using POST_play assms(1)
      by (simp add: play_with_pet_found(3) stage_update_one)
  qed
next
  case (POST_train i now)
  then show ?thesis using assms(2) by simp
next
  case (POST_moods md uuid now)
  show ?thesis
  proof (cases "find_one (by_id (pet_id md)) (pets s)")
    case None
    then show ?thesis using POST_moods
      by (simp add: create_mood_entry_def Let_def)
  next
    case (Some pet)
    then show ?thesis using POST_moods assms(1)
      by (simp add: create_mood_entry_found(3) stage_update_one)
  qed
next
  case (GET_shop uuid4)
  then show ?thesis by (simp add: get_shop_items_def Let_def)
next
  case (GET_achievements i uuid4)
  then show ?thesis by (simp add: get_achievements_def Let_def)
qed simp_all

lemma stage_step_train:
  assumes "k < length (pets s)"
  shows "stage (pets (step (POST_train i now) s) ! k) = stage (pets s ! k)
       \<or> (id_p (pets s ! k) = i
          \<and> experience (pets (step (POST_train i now) s) ! k) = experience (pets s ! k) + 25
          \<and> (stage (pets s ! k) = EGG \<and> stage (pets (step (POST_train i now) s) ! k) = BABY
                \<and> experience (pets s ! k) + 25 \<ge> 50
             \<or> stage (pets s ! k) = BABY \<and> stage (pets (step (POST_train i now) s) ! k) = ADULT
                \<and> experience (pets s ! k) + 25 \<ge> 150
             \<or> stage (pets s ! k) = ADULT
                \<and> stage (pets (step (POST_train i now) s) ! k) = LEGENDARY
                \<and> experience (pets s ! k) + 25 \<ge> 300))"
proof (cases "find_one (by_id i) (pets s)")
  case None
  then show ?thesis by (simp add: action_absent)
next
  case (Some pet)
  let ?f = "\<lambda>d. d\<lparr>happiness := min 100 (happiness pet + 10),
                    health := min 100 (health pet + 5),
                    coins := coins pet + 12,
                    experience := experience pet + 25,
                    last_trained := Some now,
                    stage := (case evolution (experience pet + 25) (stage pet) of
                                None \<Rightarrow> stage d | Some st \<Rightarrow> st)\<rparr>"
  have p: "pets (step (POST_train i now) s) = update_one (by_id i) ?f (pets s)"
    using train_pet_found(3)[OF Some, of now] by simp
  from nth_update_one[OF assms, of "by_id i" ?f]
  show ?thesis
  proof
    assume "update_one (by_id i) ?f (pets s) ! k = pets s ! k"
    then show ?thesis using p by simp
  next
    assume a: "find_one (by_id i) (pets s) = Some (pets s ! k)
               \<and> update_one (by_id i) ?f (pets s) ! k = ?f (pets s ! k)"
    then have e: "pet = pets s ! k" using Some by simp
    have "by_id i pet" using Some by (rule find_one_holds)
    then have "id_p (pets s ! k) = i" using e by (simp add: by_id_def)
    then show ?thesis using a p e
      by (auto simp: evolution_def split: if_splits)
  qed
qed

text \<open>
  Claim C3. Serving any request keeps every stored pet in place, and the stage of a pet
  either stays as it was or the request is a train call addressing that pet, whose
  experience grows by 25, and the stage moves one step: from egg to baby with the new
  experience at least 50, from baby to adult with at least 150, or from adult to
  legendary with at least 300. No other route changes a stage, no move goes backwards,
  and no move skips a stage.
\<close>

theorem stage_changes_only_by_train:
  assumes "k < length (pets s)"
  shows "length (pets s) \<le> length (pets (step r s))
       \<and> (stage (pets (step r s) ! k) = stage (pets s ! k)
          \<or> (\<exists>now. r = POST_train (id_p (pets s ! k)) now)
             \<and> experience (pets (step r s) ! k) = experience (pets s ! k) + 25
             \<and> (stage (pets s ! k) = EGG \<and> stage (pets (step r s) ! k) = BABY
                   \<and> experience (pets (step r s) ! k) \<ge> 50
                \<or> stage (pets s ! k) = BABY \<and> stage (pets (step r s) ! k) = ADULT
                   \<and> experience (pets (step r s) ! k) \<ge> 150
                \<or> stage (pets s ! k) = ADULT \<and> stage (pets (step r s) ! k) = LEGENDARY
                   \<and> experience (pets (step r s) ! k) \<ge> 300))"
proof
  show "length (pets s) \<le> length (pets (step r s))"
  proof (cases r)
    case (POST_pets pet_data uuid now)
    then show ?thesis by (simp add: create_pet_def Let_def insert_one_def)
  next
    case (PUT_pet i u)
    then show ?thesis by (simp add: update_pet_def Let_def length_update_one split: option.splits)
  next
    case (POST_feed i now)
    then show ?thesis
      by (cases "find_one (by_id i) (pets s)")
         (simp_all add: action_absent feed_pet_found(3) length_update_one)
  next
    case (POST_play i now)
    then show ?thesis
      by (cases "find_one (by_id i) (pets s)")
         (simp_all add: action_absent play_with_pet_found(3) length_update_one)
  next
    case (POST_train i now)
    then show ?thesis
      by (cases "find_one (by_id i) (pets s)")
         (simp_all add: action_absent train_pet_found(3) length_update_one)
  next
    case (POST_moods md uuid now)
    then show ?thesis
      by (cases "find_one (by_id (pet_id md)) (pets s)")
         (simp_all add: create_mood_entry_found(3) length_update_one create_mood_entry_def Let_def)
  next
    case (GET_shop uuid4)
    then show ?thesis by (simp add: get_shop_items_def Let_def)
  next
    case (GET_achievements i uuid4)
    then show ?thesis by (simp add: get_achievements_def Let_def)
  qed simp_all
next
  show "stage (pets (step r s) ! k) = stage (pets s ! k)
          \<or> (\<exists>now. r = POST_train (id_p (pets s ! k)) now)
             \<and> experience (pets (step r s) ! k) = experience (pets s ! k) + 25
             \<and> (stage (pets s ! k) = EGG \<and> stage (pets (step r s) ! k) = BABY
                   \<and> experience (pets (step r s) ! k) \<ge> 50
                \<or> stage (pets s ! k) = BABY \<and> stage (pets (step r s) ! k) = ADULT
                   \<and> experience (pets (step r s) ! k) \<ge> 150
                \<or> stage (pets s ! k) = ADULT \<and> stage (pets (step r s) ! k) = LEGENDARY
                   \<and> experience (pets (step r s) ! k) \<ge> 300)"
  proof (cases "\<exists>i now. r = POST_train i now")
    case True
    then obtain i now where r: "r = POST_train i now" by blast
    show ?thesis using stage_step_train[OF assms, of i now] unfolding r by auto
  next
    case False
    then show ?thesis using stage_step_other[OF assms, of r] by simp
  qed
qed

text \<open>
  The theorem at an egg whose experience is 375 (after 25 play actions): one train call
  brings the experience to 400 and the stage to baby, not to legendary.
\<close>

theorem stage_changes_only_by_train_witness:
  "(0::nat) < length (pets late_egg_db)
   \<and> stage (pets late_egg_db ! 0) = EGG \<and> experience (pets late_egg_db ! 0) = 375
   \<and> stage (pets (step (POST_train ''p1'' 9) late_egg_db) ! 0) = BABY
   \<and> experience (pets (step (POST_train ''p1'' 9) late_egg_db) ! 0) = 400"
proof -
  have l: "(0::nat) < length (pets late_egg_db)" by (simp add: late_egg_db_eval)
  have e: "stage (pets late_egg_db ! 0) = EGG \<and> experience (pets late_egg_db ! 0) = 375"
    by (simp add: late_egg_db_eval new_Pet_def)
  have f: "find_one (by_id ''p1'') (pets late_egg_db) = Some (pets late_egg_db ! 0)"
    by (simp add: late_egg_db_eval by_id_def new_Pet_def)
  have a: "pets (snd (train_pet ''p1'' 9 late_egg_db)) =
     [(new_Pet ''p1'' ''Rex'' 0)\<lparr>happiness := 100, coins := 312, experience := 400,
         last_played := Some 1, last_trained := Some 9, stage := BABY\<rparr>]"
    using train_pet_found(3)[OF f, of 9]
    by (simp add: late_egg_db_eval by_id_def new_Pet_def evolution_def)
  show ?thesis
    using l e a stage_changes_only_by_train[OF l, of "POST_train ''p1'' 9"]
    by (simp add: new_Pet_def)
qed

section \<open>Requests for a pet that does not exist\<close>






section \<open>Six trainings of a fresh pet\<close>

lemma train_times_fresh:
  assumes "find_one (by_id uuid) (pets s) = None"
  shows "n \<le> 6 \<Longrightarrow>
     find_one (by_id uuid) (pets (train_times n uuid clock (snd (create_pet pet_data uuid now s)))) =
       Some ((new_Pet uuid (name_c pet_data) now)
               \<lparr>happiness := min 100 (50 + 10 * int n),
                 coins := 100 + 12 * int n,
                 experience := 25 * int n,
                 last_trained := (if n = 0 then None else Some (clock (n - 1))),
                 stage := (if n < 2 then EGG else if n < 6 then BABY else ADULT)\<rparr>)"
proof (induction n)
  case 0
  then show ?case using create_pet_fresh[OF assms, of pet_data now] by (simp add: new_Pet_def)
next
  case (Suc n)
  then have ih: "find_one (by_id uuid) (pets (train_times n uuid clock (snd (create_pet pet_data uuid now s)))) =
       Some ((new_Pet uuid (name_c pet_data) now)
               \<lparr>happiness := min 100 (50 + 10 * int n),
                 coins := 100 + 12 * int n,
                 experience := 25 * int n,
                 last_trained := (if n = 0 then None else Some (clock (n - 1))),
                 stage := (if n < 2 then EGG else if n < 6 then BABY else ADULT)\<rparr>)"
    by simp
  have n: "n < 6" using Suc.prems by simp
  show ?case
    using train_pet_found(2)[OF ih, of "clock n"] n
    by (auto simp: new_Pet_def evolution_def)
qed

text \<open>
  Claim C5. A pet created under an identifier no stored pet has starts with experience
  0 at stage egg; the pets returned by six train calls in sequence have experience 25,
  50, 75, 100, 125, 150 and stage egg, baby, baby, baby, baby, adult.
\<close>

theorem six_trainings:
  assumes "find_one (by_id uuid) (pets s) = None"
  shows "experience (fst (create_pet pet_data uuid now s)) = 0
       \<and> stage (fst (create_pet pet_data uuid now s)) = EGG
       \<and> map (\<lambda>k. map_sum id (\<lambda>(m, p). (experience p, stage p))
                     (fst (train_pet uuid (clock k)
                             (train_times k uuid clock
                                (snd (create_pet pet_data uuid now s))))))
              [0, 1, 2, 3, 4, 5]
          = [Inr (25, EGG), Inr (50, BABY), Inr (75, BABY), Inr (100, BABY),
             Inr (125, BABY), Inr (150, ADULT)]"
proof -
  have r: "map_sum id (\<lambda>(m, p). (experience p, stage p))
             (fst (train_pet uuid (clock k)
                     (train_times k uuid clock (snd (create_pet pet_data uuid now s))))) =
           Inr (25 * int k + 25, if k < 1 then EGG else if k < 5 then BABY else ADULT)"
    if "k \<le> 5" for k
    using train_pet_found(1)[OF train_times_fresh[OF assms, of k clock pet_data now], of "clock k"]
      that
    by (auto simp: new_Pet_def evolution_def)
  have c: "experience (fst (create_pet pet_data uuid now s)) = 0
           \<and> stage (fst (create_pet pet_data uuid now s)) = EGG"
    by (simp add: create_pet_def Let_def new_Pet_def)
  show ?thesis
    using c r[of 0] r[of 1] r[of 2] r[of 3] r[of 4] r[of 5]
    by (simp del: train_times.simps)
qed

text \<open>
  The theorem on the empty store, with call \<open>k\<close> made at time \<open>k + 1\<close>.
\<close>

theorem six_trainings_witness:
  "find_one (by_id ''p1'') (pets empty_db) = None
   \<and> map (\<lambda>k. map_sum id (\<lambda>(m, p). (experience p, stage p))
                 (fst (train_pet ''p1'' (Suc k)
                         (train_times k ''p1'' Suc
                            (snd (create_pet \<lparr>name_c = ''Rex''\<rparr> ''p1'' 0 empty_db))))))
          [0, 1, 2, 3, 4, 5]
      = [Inr (25, EGG), Inr (50, BABY), Inr (75, BABY), Inr (100, BABY),
         Inr (125, BABY), Inr (150, ADULT)]"
proof -
  have f: "find_one (by_id ''p1'') (pets empty_db) = None" by (simp add: empty_db_def)
  show ?thesis
    using f six_trainings[OF f, of "\<lparr>name_c = ''Rex''\<rparr>" 0 Suc] by simp
qed

section \<open>Reward of a mood entry\<close>

text \<open>
  Claim C6. When the pet of a mood entry exists, then for every emotion and every
  intensity in \<open>[1, 10]\<close> the entry is returned, the pet's coins grow by exactly
  \<open>10 + intensity\<close> and its experience by exactly 5.
\<close>

theorem mood_reward:
  assumes "intensity_ok md" and "find_one (by_id (pet_id md)) (pets s) = Some pet"
  shows "fst (create_mood_entry md uuid now s) = Inr (new_MoodEntry md uuid now)
       \<and> (\<exists>p'. find_one (by_id (pet_id md)) (pets (snd (create_mood_entry md uuid now s)))
                  = Some p'
              \<and> coins p' = coins pet + (10 + intensity md)
              \<and> experience p' = experience pet + 5)"
  using create_mood_entry_found(1,2)[OF assms(2), of uuid now] by simp

text \<open>
  The theorem at an angry mood of intensity 7 for a fresh pet: coins 117, experience 5.
\<close>

theorem mood_reward_witness:
  "intensity_ok \<lparr>emotion = ANGRY, intensity = 7, note_c = None, pet_id = ''p1''\<rparr>
   \<and> find_one (by_id ''p1'') (pets rex_db) = Some (new_Pet ''p1'' ''Rex'' 0)
   \<and> map coins (pets (snd (create_mood_entry
         \<lparr>emotion = ANGRY, intensity = 7, note_c = None, pet_id = ''p1''\<rparr> ''m1'' 1 rex_db)))
        = [117]
   \<and> (\<exists>p'. find_one (by_id ''p1'') (pets (snd (create_mood_entry
         \<lparr>emotion = ANGRY, intensity = 7, note_c = None, pet_id = ''p1''\<rparr> ''m1'' 1 rex_db)))
          = Some p' \<and> coins p' = 117 \<and> experience p' = 5)"
proof -
  have v: "intensity_ok \<lparr>emotion = ANGRY, intensity = 7, note_c = None, pet_id = ''p1''\<rparr>"
    by (simp add: intensity_ok_def)
  have f: "find_one (by_id (pet_id \<lparr>emotion = ANGRY, intensity = 7, note_c = None,
                                    pet_id = ''p1''\<rparr>)) (pets rex_db)
             = Some (new_Pet ''p1'' ''Rex'' 0)"
    by (simp add: rex_db_eval by_id_def new_Pet_def)
  have c: "map coins (pets (snd (create_mood_entry
         \<lparr>emotion = ANGRY, intensity = 7, note_c = None, pet_id = ''p1''\<rparr> ''m1'' 1 rex_db)))
        = [117]"
    by (simp add: rex_db_eval create_mood_entry_def Let_def by_id_def new_Pet_def empty_db_def)
  show ?thesis
    using v f c mood_reward[OF v f, of "''m1''" 1] by (simp add: new_Pet_def)
qed

section \<open>Effects of feed, play and train\<close>

text \<open>
  Claim C7. For an existing pet each action returns, and stores, the pet read with
  exactly these fields rewritten: feed, happiness \<open>min 100 (h + 15)\<close>, health
  \<open>min 100 (h + 10)\<close>, coins \<open>+ 5\<close>, experience \<open>+ 10\<close>, \<open>last_fed\<close>; play, happiness
  \<open>min 100 (h + 20)\<close>, coins \<open>+ 8\<close>, experience \<open>+ 15\<close>, \<open>last_played\<close>, health
  untouched; train, happiness \<open>min 100 (h + 10)\<close>, health \<open>min 100 (h + 5)\<close>, coins
  \<open>+ 12\<close>, experience \<open>+ 25\<close>, \<open>last_trained\<close> (and the stage, by the evolution check).
  Coins and experience are plain sums, with no bound.
\<close>

theorem action_effects:
  assumes "find_one (by_id i) (pets s) = Some pet"
  shows "fst (feed_pet i now s) =
           Inr (''Pet fed successfully!'',
                pet\<lparr>happiness := min 100 (happiness pet + 15),
                    health := min 100 (health pet + 10),
                    coins := coins pet + 5,
                    experience := experience pet + 10,
                    last_fed := Some now\<rparr>)
       \<and> get_pet i (snd (feed_pet i now s)) =
           Inr (pet\<lparr>happiness := min 100 (happiness pet + 15),
                    health := min 100 (health pet + 10),
                    coins := coins pet + 5,
                    experience := experience pet + 10,
                    last_fed := Some now\<rparr>)
       \<and> fst (play_with_pet i now s) =
           Inr (''Had fun playing!'',
                pet\<lparr>happiness := min 100 (happiness pet + 20),
                    coins := coins pet + 8,
                    experience := experience pet + 15,
                    last_played := Some now\<rparr>)
       \<and> get_pet i (snd (play_with_pet i now s)) =
           Inr (pet\<lparr>happiness := min 100 (happiness pet + 20),
                    coins := coins pet + 8,
                    experience := experience pet + 15,
                    last_played := Some now\<rparr>)
       \<and> fst (train_pet i now s) =
           Inr (''Training completed!'',
                pet\<lparr>happiness := min 100 (happiness pet + 10),
                    health := min 100 (health pet + 5),
                    coins := coins pet + 12,
                    experience := experience pet + 25,
                    last_trained := Some now,
                    stage := (case evolution (experience pet + 25) (stage pet) of
                                None \<Rightarrow> stage pet | Some st \<Rightarrow> st)\<rparr>)
       \<and> get_pet i (snd (train_pet i now s)) =
           Inr (pet\<lparr>happiness := min 100 (happiness pet + 10),
                    health := min 100 (health pet + 5),
                    coins := coins pet + 12,
                    experience := experience pet + 25,
                    last_trained := Some now,
                    stage := (case evolution (experience pet + 25) (stage pet) of
                                None \<Rightarrow> stage pet | Some st \<Rightarrow> st)\<rparr>)"
  using feed_pet_found(1,2)[OF assms, of now] play_with_pet_found(1,2)[OF assms, of now]
    train_pet_found(1,2)[OF assms, of now]
  by (simp add: get_pet_def)

text \<open>
  The theorem at a pet with happiness 95, health 97, a million coins and experience
  5000: happiness and health stop at 100, coins and experience do not.
\<close>

theorem action_effects_witness:
  "find_one (by_id ''p1'') (pets rich_db) =
     Some ((new_Pet ''p1'' ''Rex'' 0)\<lparr>happiness := 95, health := 97, coins := 1000000,
              experience := 5000\<rparr>)
   \<and> get_pet ''p1'' (snd (feed_pet ''p1'' 4 rich_db)) =
       Inr ((new_Pet ''p1'' ''Rex'' 0)\<lparr>happiness := 100, health := 100, coins := 1000005,
              experience := 5010, last_fed := Some 4\<rparr>)
   \<and> get_pet ''p1'' (snd (play_with_pet ''p1'' 4 rich_db)) =
       Inr ((new_Pet ''p1'' ''Rex'' 0)\<lparr>happiness := 100, health := 97, coins := 1000008,
              experience := 5015, last_played := Some 4\<rparr>)
   \<and> get_pet ''p1'' (snd (train_pet ''p1'' 4 rich_db)) =
       Inr ((new_Pet ''p1'' ''Rex'' 0)\<lparr>happiness := 100, health := 100, coins := 1000012,
              experience := 5025, last_trained := Some 4, stage := BABY\<rparr>)"
proof -
  have f: "find_one (by_id ''p1'') (pets rich_db) =
     Some ((new_Pet ''p1'' ''Rex'' 0)\<lparr>happiness := 95, health := 97, coins := 1000000,
              experience := 5000\<rparr>)"
    by (simp add: rich_db_def empty_db_def by_id_def new_Pet_def)
  show ?thesis
    using f action_effects[OF f, of 4] by (simp add: new_Pet_def evolution_def)
qed

section \<open>Mood entry for a pet that does not exist\<close>

text \<open>
  Claim C8. When no stored pet has the identifier of the payload, \<open>create_mood_entry\<close>
  still appends the entry to the mood collection, returns it without an error, and
  leaves the pets collection (and every other collection) as it was.
\<close>

theorem mood_for_absent_pet:
  assumes "find_one (by_id (pet_id md)) (pets s) = None"
  shows "create_mood_entry md uuid now s =
           (Inr (new_MoodEntry md uuid now),
            s\<lparr>mood_entries := mood_entries s @ [new_MoodEntry md uuid now]\<rparr>)
       \<and> pets (snd (create_mood_entry md uuid now s)) = pets s
       \<and> new_MoodEntry md uuid now \<in> set (mood_entries (snd (create_mood_entry md uuid now s)))"
  using assms by (simp add: create_mood_entry_def Let_def insert_one_def)

text \<open>
  The theorem at a mood logged for \<open>ghost\<close> in a store holding one other pet.
\<close>

theorem mood_for_absent_pet_witness:
  "find_one (by_id ''ghost'') (pets rex_db) = None
   \<and> create_mood_entry \<lparr>emotion = HAPPY, intensity = 9, note_c = Some ''hi'', pet_id = ''ghost''\<rparr>
        ''m1'' 5 rex_db =
       (Inr \<lparr>id_m = ''m1'', emotion_m = HAPPY, intensity_m = 9, note_m = Some ''hi'',
             timestamp = 5, pet_id_m = ''ghost''\<rparr>,
        rex_db\<lparr>mood_entries := [\<lparr>id_m = ''m1'', emotion_m = HAPPY, intensity_m = 9,
                                  note_m = Some ''hi'', timestamp = 5, pet_id_m = ''ghost''\<rparr>]\<rparr>)"
proof -
  have f: "find_one (by_id (pet_id \<lparr>emotion = HAPPY, intensity = 9, note_c = Some ''hi'',
                                    pet_id = ''ghost''\<rparr>)) (pets rex_db) = None"
    by (simp add: rex_db_eval by_id_def new_Pet_def)
  have m: "mood_entries rex_db = []" by (simp add: rex_db_eval empty_db_def)
  show ?thesis
    using f m mood_for_absent_pet[OF f, of "''m1''" 5] by (simp add: new_MoodEntry_def)
qed

section \<open>Shop catalog\<close>

lemma seed_shop_empty:
  "seed_shop uuid4 0 default_items [] =
     [new_ShopItem (uuid4 0) (default_items ! 0), new_ShopItem (uuid4 1) (default_items ! 1),
      new_ShopItem (uuid4 2) (default_items ! 2), new_ShopItem (uuid4 3) (default_items ! 3),
      new_ShopItem (uuid4 4) (default_items ! 4)]"
  by (simp add: default_items_def insert_one_def eval_nat_numeral)

lemma get_shop_items_populated:
  "shop_items t \<noteq> [] \<Longrightarrow> get_shop_items uuid4 t = (take 100 (shop_items t), t)"
  by (simp add: get_shop_items_def Let_def find_to_list_def)

text \<open>
  Claim C9. On a store with no shop items the catalog request returns exactly the five
  default items, in order, with the identifiers drawn for them, and their names are
  pairwise distinct; a second request, whatever identifiers it could draw, returns the
  same list and leaves the store as the first one left it. A store that has shop items
  is never seeded.
\<close>

theorem shop_seeded_once:
  assumes "shop_items s = []"
  shows "fst (get_shop_items uuid4 s) =
           [new_ShopItem (uuid4 0) (default_items ! 0), new_ShopItem (uuid4 1) (default_items ! 1),
            new_ShopItem (uuid4 2) (default_items ! 2), new_ShopItem (uuid4 3) (default_items ! 3),
            new_ShopItem (uuid4 4) (default_items ! 4)]
       \<and> map (\<lambda>it. (name_s it, description_s it, price it, category it, icon_s it))
            (fst (get_shop_items uuid4 s)) = default_items
       \<and> length (fst (get_shop_items uuid4 s)) = 5
       \<and> distinct (map name_s (fst (get_shop_items uuid4 s)))
       \<and> get_shop_items uuid4' (snd (get_shop_items uuid4 s)) =
           (fst (get_shop_items uuid4 s), snd (get_shop_items uuid4 s))
       \<and> (shop_items t \<noteq> [] \<longrightarrow>
            get_shop_items uuid4' t = (take 100 (shop_items t), t))"
proof -
  let ?items = "[new_ShopItem (uuid4 0) (default_items ! 0), new_ShopItem (uuid4 1) (default_items ! 1),
            new_ShopItem (uuid4 2) (default_items ! 2), new_ShopItem (uuid4 3) (default_items ! 3),
            new_ShopItem (uuid4 4) (default_items ! 4)]"
  have g: "get_shop_items uuid4 s = (?items, s\<lparr>shop_items := ?items\<rparr>)"
    using assms by (simp add: get_shop_items_def Let_def find_to_list_def seed_shop_empty)
  have d: "map (\<lambda>it. (name_s it, description_s it, price it, category it, icon_s it)) ?items
             = default_items"
    by (simp add: default_items_def new_ShopItem_def)
  have n: "distinct (map name_s ?items)"
    by (simp add: default_items_def new_ShopItem_def)
  have a: "get_shop_items uuid4' (s\<lparr>shop_items := ?items\<rparr>) = (?items, s\<lparr>shop_items := ?items\<rparr>)"
    by (simp add: get_shop_items_populated)
  show ?thesis
    unfolding g using d n a by (simp add: get_shop_items_populated)
qed

text \<open>
  The theorem on the empty store, for two different identifier supplies.
\<close>

theorem shop_seeded_once_witness:
  "shop_items empty_db = []
   \<and> shop_items (snd (get_shop_items sample_uuid4 empty_db)) \<noteq> []
   \<and> map name_s (fst (get_shop_items sample_uuid4 empty_db)) =
       [''Premium Food'', ''Toy Ball'', ''Training Weights'', ''Sparkle Background'',
        ''Rainbow Collar'']
   \<and> map id_s (fst (get_shop_items sample_uuid4 empty_db)) =
       [''row-'', ''row-i'', ''row-ii'', ''row-iii'', ''row-iiii'']
   \<and> fst (get_shop_items other_uuid4 (snd (get_shop_items sample_uuid4 empty_db))) =
       fst (get_shop_items sample_uuid4 empty_db)
   \<and> snd (get_shop_items other_uuid4 (snd (get_shop_items sample_uuid4 empty_db))) =
       snd (get_shop_items sample_uuid4 empty_db)"
proof -
  have e: "shop_items empty_db = []" by (simp add: empty_db_def)
  have p: "shop_items (snd (get_shop_items sample_uuid4 empty_db)) \<noteq> []"
    by (simp add: get_shop_items_def Let_def find_to_list_def empty_db_def seed_shop_empty)
  note t = shop_seeded_once[OF e, of sample_uuid4 other_uuid4
      "snd (get_shop_items sample_uuid4 empty_db)"]
  have first: "fst (get_shop_items sample_uuid4 empty_db) =
           [new_ShopItem (sample_uuid4 0) (default_items ! 0),
            new_ShopItem (sample_uuid4 1) (default_items ! 1),
            new_ShopItem (sample_uuid4 2) (default_items ! 2),
            new_ShopItem (sample_uuid4 3) (default_items ! 3),
            new_ShopItem (sample_uuid4 4) (default_items ! 4)]"
    using t by blast
  have names: "map name_s (fst (get_shop_items sample_uuid4 empty_db)) =
       [''Premium Food'', ''Toy Ball'', ''Training Weights'', ''Sparkle Background'',
        ''Rainbow Collar'']"
    unfolding first by (simp add: default_items_def new_ShopItem_def)
  have ids: "map id_s (fst (get_shop_items sample_uuid4 empty_db)) =
       [''row-'', ''row-i'', ''row-ii'', ''row-iii'', ''row-iiii'']"
    unfolding first
    by (simp add: default_items_def new_ShopItem_def sample_uuid4_def eval_nat_numeral)
  have again: "get_shop_items other_uuid4 (snd (get_shop_items sample_uuid4 empty_db)) =
           (fst (get_shop_items sample_uuid4 empty_db), snd (get_shop_items sample_uuid4 empty_db))"
    using t by blast
  show ?thesis using e p names ids again by simp
qed

section \<open>Updates through PUT\<close>

text \<open>
  Claim C10. For an existing pet, \<open>update_pet\<close> returns and stores a pet whose
  happiness, health and coins are exactly the integers the payload supplies, whatever
  they are: nothing is clamped and nothing is checked. The witness below reaches
  happiness \<open>-7\<close>, health 250 and coins \<open>-1\<close> from a freshly created pet.
\<close>

theorem update_pet_unclamped:
  assumes "find_one (by_id i) (pets s) = Some pet"
  shows "\<exists>p'. fst (update_pet i u s) = Inr p'
            \<and> get_pet i (snd (update_pet i u s)) = Inr p'
            \<and> (\<forall>v. happiness_u u = Some v \<longrightarrow> happiness p' = v)
            \<and> (\<forall>v. health_u u = Some v \<longrightarrow> health p' = v)
            \<and> (\<forall>v. coins_u u = Some v \<longrightarrow> coins p' = v)"
proof (cases "update_data_empty u")
  case True
  then show ?thesis using assms
    by (simp add: update_pet_def Let_def get_pet_def update_data_empty_def)
next
  case False
  have q: "by_id i (set_update_data u pet)"
    using find_one_holds[OF assms] by (simp add: by_id_def set_update_data_def)
  have "find_one (by_id i) (update_one (by_id i) (set_update_data u) (pets s)) =
          Some (set_update_data u pet)"
    using assms q by (rule find_one_update_one)
  then show ?thesis using False
    by (simp add: update_pet_def Let_def get_pet_def set_update_data_def)
qed

text \<open>
  The theorem at a fresh pet and the payload happiness \<open>-7\<close>, health 250, coins
  \<open>-1\<close>.
\<close>

theorem update_pet_unclamped_witness:
  "find_one (by_id ''p1'') (pets rex_db) = Some (new_Pet ''p1'' ''Rex'' 0)
   \<and> get_pet ''p1''
        (snd (update_pet ''p1''
                \<lparr>name_u = None, happiness_u = Some (- 7), health_u = Some 250,
                 coins_u = Some (- 1)\<rparr> rex_db)) =
       Inr ((new_Pet ''p1'' ''Rex'' 0)\<lparr>happiness := - 7, health := 250, coins := - 1\<rparr>)
   \<and> (\<exists>p'. fst (update_pet ''p1''
                \<lparr>name_u = None, happiness_u = Some (- 7), health_u = Some 250,
                 coins_u = Some (- 1)\<rparr> rex_db) = Inr p'
          \<and> happiness p' = - 7 \<and> health p' = 250 \<and> coins p' = - 1)"
proof -
  have f: "find_one (by_id ''p1'') (pets rex_db) = Some (new_Pet ''p1'' ''Rex'' 0)"
    by (simp add: rex_db_eval by_id_def new_Pet_def)
  have g: "get_pet ''p1''
        (snd (update_pet ''p1''
                \<lparr>name_u = None, happiness_u = Some (- 7), health_u = Some 250,
                 coins_u = Some (- 1)\<rparr> rex_db)) =
       Inr ((new_Pet ''p1'' ''Rex'' 0)\<lparr>happiness := - 7, health := 250, coins := - 1\<rparr>)"
    by (simp add: rex_db_eval update_pet_def Let_def update_data_empty_def set_update_data_def
          get_pet_def by_id_def new_Pet_def empty_db_def)
  show ?thesis
    using f g update_pet_unclamped[OF f, of "\<lparr>name_u = None, happiness_u = Some (- 7),
        health_u = Some 250, coins_u = Some (- 1)\<rparr>"]
    by simp
qed

end
